theory Spec2Isabelle
  imports Complex_Main "HOL-Library.Multiset"
begin

section \<open>Data model of \<open>src/contexts/InventoryContext.tsx\<close>\<close>

text \<open>
  The TypeScript type \<open>number\<close> is modelled by \<open>real\<close>: quantities, unit costs and
  thresholds are computed with exact arithmetic. Every division of the source is guarded by
  a test that the divisor is positive, so no division by zero is hidden by the model.

  \<open>new Date(s)\<close> is a function of the JavaScript runtime, not of the repository. It is
  a parameter of the model: a \<open>dateParser\<close> gives the time value (milliseconds since the
  epoch) of a date string, or \<open>None\<close> for an Invalid Date, whose time value is NaN.
\<close>

type_synonym dateParser = "string \<Rightarrow> int option"

datatype TransactionType = Entry | Exit

datatype InventoryMethod = UEPS | PEPS | weighted

record Product =
  id' :: string
  name :: string
  description :: string
  categoryId :: string
  sku :: string
  minStock :: real
  image :: string
  price :: real
  barcode :: "string option"

text \<open>
  \<open>Omit<InventoryTransaction, 'id'>\<close> is the record of the fields other than the
  identifier; the full transaction extends it with the identifier, as the object spread
  \<open>{ ...transaction, id: uuidv4() }\<close> does.
\<close>

record TransactionDraft =
  productId :: string
  type :: TransactionType
  quantity :: real
  unitCost :: real
  date :: string
  notes' :: string

record InventoryTransaction = TransactionDraft +
  id' :: string

record CostBreakdown =
  entries :: "InventoryTransaction list"
  exits :: "InventoryTransaction list"
  remainingStock :: real
  totalCost :: real
  averageCost :: real

datatype error = NotEnoughStock

section \<open>Transaction operations\<close>

text \<open>
  \<open>getProductStock\<close>: the transactions of the product, folded from 0 by
  \<open>Array.prototype.reduce\<close>.
\<close>

definition getProductStock :: "InventoryTransaction list \<Rightarrow> string \<Rightarrow> real" where
  "getProductStock transactions pid =
     (let productTransactions = filter (\<lambda>t. productId t = pid) transactions
      in foldl (\<lambda>stock transaction.
                  if type transaction = Entry then stock + quantity transaction
                  else stock - quantity transaction)
           0 productTransactions)"

text \<open>
  \<open>addTransaction\<close>: the identifier drawn by \<open>uuidv4()\<close> is the parameter \<open>newId\<close>.
  The \<open>throw\<close> comes before \<open>setTransactions\<close>, so an error leaves the list as it was;
  the result is the error or the new list.
\<close>

definition addTransaction ::
  "string \<Rightarrow> InventoryTransaction list \<Rightarrow> TransactionDraft \<Rightarrow> error + InventoryTransaction list" where
  "addTransaction newId transactions transaction =
     (let newTransaction = TransactionDraft.extend transaction (InventoryTransaction.fields newId)
      in if type transaction = Exit
            \<and> getProductStock transactions (productId transaction) < quantity transaction
         then Inl NotEnoughStock
         else Inr (transactions @ [newTransaction]))"


section \<open>Reports\<close>

text \<open>
  The relational operators on two \<open>Date\<close> objects compare their time values, and every
  comparison with NaN is false.
\<close>

fun dateLe :: "int option \<Rightarrow> int option \<Rightarrow> bool" where
  "dateLe (Some a) (Some b) = (a \<le> b)"
| "dateLe _ _ = False"

definition getProductTransactions ::
  "dateParser \<Rightarrow> InventoryTransaction list \<Rightarrow> string \<Rightarrow> string \<Rightarrow> string \<Rightarrow> InventoryTransaction list" where
  "getProductTransactions parse transactions pid startDate endDate =
     (let start = parse startDate; end = parse endDate
      in filter (\<lambda>t.
                   let transactionDate = parse (date t)
                   in productId t = pid
                      \<and> dateLe start transactionDate
                      \<and> dateLe transactionDate end)
           transactions)"

text \<open>
  \<open>new Date(t.date).getTime()\<close>, the sort key. The comparators are only applied to
  transactions that passed the filter above, whose dates parse; the value given here to an
  Invalid Date is never used (lemma \<open>getProductTransactions_parse\<close>).
\<close>

definition getTime :: "dateParser \<Rightarrow> InventoryTransaction \<Rightarrow> int" where
  "getTime parse t = (case parse (date t) of Some ms \<Rightarrow> ms | None \<Rightarrow> 0)"

text \<open>
  \<open>Array.prototype.sort\<close> is stable; with the comparator \<open>a - b\<close> on the time values
  it is the stable sort by ascending time, with \<open>b - a\<close> by descending time.
\<close>

definition sortAscending :: "dateParser \<Rightarrow> InventoryTransaction list \<Rightarrow> InventoryTransaction list" where
  "sortAscending parse ts = sort_key (getTime parse) ts"

definition sortDescending :: "dateParser \<Rightarrow> InventoryTransaction list \<Rightarrow> InventoryTransaction list" where
  "sortDescending parse ts = sort_key (\<lambda>t. - getTime parse t) ts"

text \<open>
  The inner \<open>while\<close> loop of the PEPS and UEPS branches, on the quantity of the exit still
  to satisfy and the queue of remaining entries. Each turn either shifts the queue, or
  writes the partial entry and sets the quantity to 0, which ends the loop.
\<close>

fun consumeEntries :: "real \<Rightarrow> InventoryTransaction list \<Rightarrow> InventoryTransaction list" where
  "consumeEntries remainingExitQuantity [] = []"
| "consumeEntries remainingExitQuantity (oldestEntry # rest) =
     (if remainingExitQuantity > 0 then
        (if quantity oldestEntry \<le> remainingExitQuantity
         then consumeEntries (remainingExitQuantity - quantity oldestEntry) rest
         else oldestEntry\<lparr>quantity := quantity oldestEntry - remainingExitQuantity\<rparr> # rest)
      else oldestEntry # rest)"

text \<open>The \<open>for ... of\<close> loop over the sorted exits.\<close>

definition processExits ::
  "InventoryTransaction list \<Rightarrow> InventoryTransaction list \<Rightarrow> InventoryTransaction list" where
  "processExits remainingEntries sortedExits =
     foldl (\<lambda>remaining exit. consumeEntries (quantity exit) remaining) remainingEntries sortedExits"

text \<open>The weighted branch: the state is the pair \<open>(totalUnits, totalValue)\<close>.\<close>

definition addEntry :: "real \<times> real \<Rightarrow> InventoryTransaction \<Rightarrow> real \<times> real" where
  "addEntry s entry =
     (case s of (totalUnits, totalValue) \<Rightarrow>
        (totalUnits + quantity entry, totalValue + quantity entry * unitCost entry))"

definition applyExit :: "real \<times> real \<Rightarrow> InventoryTransaction \<Rightarrow> real \<times> real" where
  "applyExit s exit =
     (case s of (totalUnits, totalValue) \<Rightarrow>
        if totalUnits > 0 then
          (let currentAverageCost = totalValue / totalUnits
           in (totalUnits - quantity exit, totalValue - quantity exit * currentAverageCost))
        else (totalUnits, totalValue))"

definition weightedTotals ::
  "InventoryTransaction list \<Rightarrow> InventoryTransaction list \<Rightarrow> real \<times> real" where
  "weightedTotals es xs = foldl applyExit (foldl addEntry (0, 0) es) xs"

text \<open>
  \<open>calculateInventoryCost\<close>. In the PEPS and UEPS branches \<open>exits.sort\<close> sorts the array
  \<open>exits\<close> itself, which is the array returned; the entries are sorted in a copy.
\<close>

definition calculateInventoryCost ::
  "dateParser \<Rightarrow> InventoryTransaction list \<Rightarrow> string \<Rightarrow> InventoryMethod \<Rightarrow> string \<Rightarrow> string
     \<Rightarrow> CostBreakdown" where
  "calculateInventoryCost parse transactions pid method startDate endDate =
     (let filteredTransactions = getProductTransactions parse transactions pid startDate endDate;
          entries = filter (\<lambda>t. type t = Entry) filteredTransactions;
          exits = filter (\<lambda>t. type t = Exit) filteredTransactions
      in case method of
           PEPS \<Rightarrow>
             (let entriesQueue = sortAscending parse entries;
                  sortedExits = sortAscending parse exits;
                  remainingEntries = processExits entriesQueue sortedExits;
                  remainingStock = foldl (\<lambda>sum entry. sum + quantity entry) 0 remainingEntries;
                  totalCost = foldl (\<lambda>sum entry. sum + quantity entry * unitCost entry) 0 remainingEntries
              in \<lparr>entries = entries, exits = sortedExits, remainingStock = remainingStock,
                  totalCost = totalCost,
                  averageCost = (if remainingStock > 0 then totalCost / remainingStock else 0)\<rparr>)
         | UEPS \<Rightarrow>
             (let entriesStack = sortDescending parse entries;
                  sortedExits = sortAscending parse exits;
                  remainingEntries = processExits entriesStack sortedExits;
                  remainingStock = foldl (\<lambda>sum entry. sum + quantity entry) 0 remainingEntries;
                  totalCost = foldl (\<lambda>sum entry. sum + quantity entry * unitCost entry) 0 remainingEntries
              in \<lparr>entries = entries, exits = sortedExits, remainingStock = remainingStock,
                  totalCost = totalCost,
                  averageCost = (if remainingStock > 0 then totalCost / remainingStock else 0)\<rparr>)
         | weighted \<Rightarrow>
             (case weightedTotals entries exits of (totalUnits, totalValue) \<Rightarrow>
                \<lparr>entries = entries, exits = exits, remainingStock = totalUnits,
                 totalCost = totalValue,
                 averageCost = (if totalUnits > 0 then totalValue / totalUnits else 0)\<rparr>))"

section \<open>Notions of the specification\<close>




text \<open>
  \<open>startDate \<le> transaction.date \<le> endDate\<close>, on the time values: it holds only when
  the three dates parse.
\<close>

definition inRange :: "dateParser \<Rightarrow> string \<Rightarrow> string \<Rightarrow> InventoryTransaction \<Rightarrow> bool" where
  "inRange parse startDate endDate t =
     (case (parse startDate, parse (date t), parse endDate) of
        (Some a, Some d, Some b) \<Rightarrow> a \<le> d \<and> d \<le> b
      | _ \<Rightarrow> False)"

text \<open>
  The data model of the specification asks \<open>quantity > 0\<close> of every transaction; the
  theorems below that need a sign need only \<open>quantity \<ge> 0\<close>.
\<close>

definition nonNegativeQuantities :: "InventoryTransaction list \<Rightarrow> bool" where
  "nonNegativeQuantities ts = list_all (\<lambda>t. 0 \<le> quantity t) ts"

text \<open>The quantity and the value of a list of lots.\<close>

definition lotsQuantity :: "InventoryTransaction list \<Rightarrow> real" where
  "lotsQuantity ts = (\<Sum>t\<leftarrow>ts. quantity t)"

definition lotsCost :: "InventoryTransaction list \<Rightarrow> real" where
  "lotsCost ts = (\<Sum>t\<leftarrow>ts. quantity t * unitCost t)"





text \<open>
  What a list of lots is worth above the price \<open>b\<close>; \<open>sg\<close> is 1, or -1 to turn
  the order of the costs around. It is the tool of the comparison of PEPS and UEPS.
\<close>

definition surplus :: "real \<Rightarrow> real \<Rightarrow> InventoryTransaction list \<Rightarrow> real" where
  "surplus sg b ts = (\<Sum>t\<leftarrow>ts. quantity t * max 0 (sg * unitCost t - b))"



section \<open>Sample data\<close>

text \<open>
  A date parser for the examples: the time values \<open>Date.parse\<close> gives for four date-only
  strings (midnight UTC), and Invalid Date for every other string.
\<close>

definition sampleDates :: dateParser where
  "sampleDates s =
     map_of [(''2024-01-01'', 1704067200000), (''2024-01-10'', 1704844800000),
             (''2024-01-15'', 1705276800000), (''2024-01-31'', 1706659200000)] s"

definition mkTransaction ::
  "string \<Rightarrow> string \<Rightarrow> TransactionType \<Rightarrow> real \<Rightarrow> real \<Rightarrow> string \<Rightarrow> InventoryTransaction" where
  "mkTransaction i pid ty q c d =
     \<lparr>productId = pid, type = ty, quantity = q, unitCost = c, date = d, notes' = [], id' = i\<rparr>"

text \<open>The example of the specification: two entries, 10 at 5 and 10 at 7, and one exit of 12.\<close>

definition exampleLedger :: "string \<Rightarrow> InventoryTransaction list" where
  "exampleLedger pid =
     [mkTransaction ''t1'' pid Entry 10 5 ''2024-01-01'',
      mkTransaction ''t2'' pid Entry 10 7 ''2024-01-10'',
      mkTransaction ''t3'' pid Exit 12 0 ''2024-01-15'']"


definition exampleDraft :: "TransactionType \<Rightarrow> real \<Rightarrow> TransactionDraft" where
  "exampleDraft ty q =
     \<lparr>productId = ''p1'', type = ty, quantity = q, unitCost = 0, date = ''2024-01-31'', notes' = []\<rparr>"




section \<open>Current stock\<close>







section \<open>Adding a transaction\<close>

text \<open>
  Claim C6. A draft is rejected with the insufficient-stock error exactly when it is an exit
  and the stock of its product is strictly less than its quantity. The rejection returns no
  new list, so the list of transactions stays as it was. An entry is never rejected, and an
  accepted draft gives the old list followed by one transaction that has the fields of the
  draft and the new identifier.
\<close>

theorem addTransaction_insufficient_stock:
  "(addTransaction newId ts d = Inl NotEnoughStock
      \<longleftrightarrow> type d = Exit \<and> getProductStock ts (productId d) < quantity d)
   \<and> (type d = Entry \<longrightarrow> (\<exists>ts'. addTransaction newId ts d = Inr ts'))
   \<and> (\<forall>ts'. addTransaction newId ts d = Inr ts' \<longrightarrow>
         (\<exists>t. ts' = ts @ [t] \<and> id' t = newId \<and> productId t = productId d \<and> type t = type d
              \<and> quantity t = quantity d \<and> unitCost t = unitCost d \<and> date t = date d
              \<and> notes' t = notes' d))"
  by (auto simp: addTransaction_def Let_def TransactionDraft.defs InventoryTransaction.defs)

theorem addTransaction_insufficient_stock_witness:
  "addTransaction ''t4'' (exampleLedger ''p1'') (exampleDraft Exit 9) = Inl NotEnoughStock
   \<and> type (exampleDraft Entry 9) = Entry
   \<and> (\<exists>ts'. addTransaction ''t4'' (exampleLedger ''p1'') (exampleDraft Entry 9) = Inr ts')
   \<and> addTransaction ''t4'' (exampleLedger ''p1'') (exampleDraft Exit 8)
       = Inr (exampleLedger ''p1'' @ [mkTransaction ''t4'' ''p1'' Exit 8 0 ''2024-01-31''])
   \<and> (\<exists>t. exampleLedger ''p1'' @ [mkTransaction ''t4'' ''p1'' Exit 8 0 ''2024-01-31'']
            = exampleLedger ''p1'' @ [t]
          \<and> id' t = ''t4'' \<and> quantity t = 8 \<and> type t = Exit)"
proof -
  have stock: "getProductStock (exampleLedger ''p1'') ''p1'' = 8"
    by (simp add: getProductStock_def exampleLedger_def mkTransaction_def)
  have accepted: "addTransaction ''t4'' (exampleLedger ''p1'') (exampleDraft Exit 8)
       = Inr (exampleLedger ''p1'' @ [mkTransaction ''t4'' ''p1'' Exit 8 0 ''2024-01-31''])"
    by (simp add: addTransaction_def stock exampleDraft_def mkTransaction_def
        TransactionDraft.defs InventoryTransaction.defs)
  have ty: "type (exampleDraft Exit 9) = Exit" "type (exampleDraft Entry 9) = Entry"
    "productId (exampleDraft Exit 9) = ''p1''" "quantity (exampleDraft Exit 9) = 9"
    "quantity (exampleDraft Exit 8) = 8" "type (exampleDraft Exit 8) = Exit"
    by (simp_all add: exampleDraft_def)
  show ?thesis
    using stock accepted ty
      addTransaction_insufficient_stock [of "''t4''" "exampleLedger ''p1''" "exampleDraft Exit 9"]
      addTransaction_insufficient_stock [of "''t4''" "exampleLedger ''p1''" "exampleDraft Entry 9"]
      addTransaction_insufficient_stock [of "''t4''" "exampleLedger ''p1''" "exampleDraft Exit 8"]
    by simp
qed

section \<open>Products at or below their minimum stock\<close>



section \<open>Transactions of a product in a date range\<close>

lemma dateLe_inRange:
  "(dateLe (parse s) (parse (date t)) \<and> dateLe (parse (date t)) (parse e)) = inRange parse s e t"
  by (cases "parse s"; cases "parse (date t)"; cases "parse e") (simp_all add: inRange_def)

lemma getProductTransactions_filter:
  "getProductTransactions parse ts pid s e = filter (\<lambda>t. productId t = pid \<and> inRange parse s e t) ts"
  by (simp add: getProductTransactions_def Let_def dateLe_inRange)

lemma getProductTransactions_parse:
  "t \<in> set (getProductTransactions parse ts pid s e) \<Longrightarrow> \<exists>ms. parse (date t) = Some ms"
  by (cases "parse (date t)") (auto simp: getProductTransactions_filter inRange_def split: option.splits)

text \<open>
  Claim C5. The result is the list of the transactions of the product whose date lies
  between the start date and the end date, both bounds included, in the order of the ledger.
  It is the empty list when no transaction matches, and when the start date is later than
  the end date. The function returns a list in every case: it has no error result.
\<close>

theorem getProductTransactions_inclusive:
  "getProductTransactions parse ts pid s e
     = filter (\<lambda>t. productId t = pid \<and> inRange parse s e t) ts
   \<and> ((\<forall>t \<in> set ts. \<not> (productId t = pid \<and> inRange parse s e t))
        \<longrightarrow> getProductTransactions parse ts pid s e = [])
   \<and> (\<forall>a b. parse s = Some a \<and> parse e = Some b \<and> b < a
        \<longrightarrow> getProductTransactions parse ts pid s e = [])"
  by (auto simp: getProductTransactions_filter filter_empty_conv inRange_def split: option.splits)

theorem getProductTransactions_inclusive_witness:
  "getProductTransactions sampleDates (exampleLedger ''p1'') ''p2'' ''2024-01-01'' ''2024-01-31'' = []
   \<and> sampleDates ''2024-01-31'' = Some 1706659200000
   \<and> sampleDates ''2024-01-01'' = Some 1704067200000
   \<and> (1704067200000 :: int) < 1706659200000
   \<and> getProductTransactions sampleDates (exampleLedger ''p1'') ''p1'' ''2024-01-31'' ''2024-01-01'' = []
   \<and> getProductTransactions sampleDates (exampleLedger ''p1'') ''p1'' ''2024-01-01'' ''2024-01-15''
       = exampleLedger ''p1''"
proof -
  have none: "\<forall>t \<in> set (exampleLedger ''p1''). \<not> (productId t = ''p2'' \<and> inRange sampleDates ''2024-01-01'' ''2024-01-31'' t)"
    by (simp add: exampleLedger_def mkTransaction_def)
  have dates: "sampleDates ''2024-01-31'' = Some 1706659200000"
    "sampleDates ''2024-01-01'' = Some 1704067200000"
    "sampleDates ''2024-01-10'' = Some 1704844800000"
    "sampleDates ''2024-01-15'' = Some 1705276800000"
    by (simp_all add: sampleDates_def)
  have all: "filter (\<lambda>t. productId t = ''p1'' \<and> inRange sampleDates ''2024-01-01'' ''2024-01-15'' t) (exampleLedger ''p1'')
     = exampleLedger ''p1''"
    by (simp add: exampleLedger_def mkTransaction_def inRange_def dates)
  have empty1: "getProductTransactions sampleDates (exampleLedger ''p1'') ''p2'' ''2024-01-01'' ''2024-01-31'' = []"
    using none
      getProductTransactions_inclusive [of sampleDates "exampleLedger ''p1''" "''p2''"
        "''2024-01-01''" "''2024-01-31''", THEN conjunct2, THEN conjunct1]
    by blast
  have empty2: "getProductTransactions sampleDates (exampleLedger ''p1'') ''p1'' ''2024-01-31'' ''2024-01-01'' = []"
    using dates(1,2)
      getProductTransactions_inclusive [of sampleDates "exampleLedger ''p1''" "''p1''"
        "''2024-01-31''" "''2024-01-01''", THEN conjunct2, THEN conjunct2]
    by simp
  have full: "getProductTransactions sampleDates (exampleLedger ''p1'') ''p1'' ''2024-01-01'' ''2024-01-15''
       = exampleLedger ''p1''"
    using all
      getProductTransactions_inclusive [of sampleDates "exampleLedger ''p1''" "''p1''"
        "''2024-01-01''" "''2024-01-15''", THEN conjunct1]
    by simp
  have lt: "(1704067200000 :: int) < 1706659200000"
    by simp
  from empty1 dates(1,2) lt empty2 full show ?thesis
    by (intro conjI)
qed

section \<open>Evaluating the sample data\<close>

lemma sample_parse [simp]:
  "sampleDates ''2024-01-01'' = Some 1704067200000"
  "sampleDates ''2024-01-10'' = Some 1704844800000"
  "sampleDates ''2024-01-15'' = Some 1705276800000"
  "sampleDates ''2024-01-31'' = Some 1706659200000"
  by (simp_all add: sampleDates_def)





section \<open>Remaining stock of the queue methods\<close>


lemma lotsQuantity_Cons [simp]: "lotsQuantity (t # ts) = quantity t + lotsQuantity ts"
  and lotsQuantity_Nil [simp]: "lotsQuantity [] = 0"
  by (simp_all add: lotsQuantity_def)

lemma nonNegativeQuantities_Cons [simp]:
  "nonNegativeQuantities (t # ts) = (0 \<le> quantity t \<and> nonNegativeQuantities ts)"
  and nonNegativeQuantities_Nil [simp]: "nonNegativeQuantities []"
  by (simp_all add: nonNegativeQuantities_def)


lemma lotsQuantity_mset: "lotsQuantity ts = sum_mset (image_mset quantity (mset ts))"
  by (induction ts) simp_all

lemma lotsQuantity_sort_key [simp]: "lotsQuantity (sort_key k ts) = lotsQuantity ts"
  by (simp add: lotsQuantity_mset)

lemma nonNegativeQuantities_set: "nonNegativeQuantities ts = (\<forall>t \<in> set ts. 0 \<le> quantity t)"
  by (simp add: nonNegativeQuantities_def list_all_iff)

lemma nonNegativeQuantities_sort_key [simp]:
  "nonNegativeQuantities (sort_key k ts) = nonNegativeQuantities ts"
  by (simp add: nonNegativeQuantities_set)


lemma consumeEntries_nothing: "x \<le> 0 \<Longrightarrow> consumeEntries x q = q"
  by (cases q) simp_all



lemma processExits_Cons [simp]:
  "processExits q (x # xs) = processExits (consumeEntries (quantity x) q) xs"
  and processExits_Nil [simp]: "processExits q [] = q"
  by (simp_all add: processExits_def)








section \<open>Conservation of quantity\<close>

lemma lotsCost_Cons [simp]: "lotsCost (t # ts) = quantity t * unitCost t + lotsCost ts"
  and lotsCost_Nil [simp]: "lotsCost [] = 0"
  by (simp_all add: lotsCost_def)








section \<open>The weighted method\<close>
















section \<open>The example of the specification\<close>

lemma example_selected:
  assumes "parse ''2024-01-01'' = Some d1" "parse ''2024-01-10'' = Some d2"
    "parse ''2024-01-15'' = Some d3" "d1 < d2" "d2 < d3"
    "parse startDate = Some a" "parse endDate = Some b" "a \<le> d1" "d3 \<le> b"
  shows "getProductTransactions parse (exampleLedger pid) pid startDate endDate = exampleLedger pid"
  using assms by (simp add: getProductTransactions_def exampleLedger_def mkTransaction_def)

lemma example_PEPS:
  assumes "parse ''2024-01-01'' = Some d1" "parse ''2024-01-10'' = Some d2"
    "parse ''2024-01-15'' = Some d3" "d1 < d2"
    and "getProductTransactions parse (exampleLedger pid) pid startDate endDate = exampleLedger pid"
  shows "remainingStock (calculateInventoryCost parse (exampleLedger pid) pid PEPS startDate endDate) = 8"
    and "totalCost (calculateInventoryCost parse (exampleLedger pid) pid PEPS startDate endDate) = 56"
    and "averageCost (calculateInventoryCost parse (exampleLedger pid) pid PEPS startDate endDate) = 7"
  using assms
  by (simp_all add: calculateInventoryCost_def exampleLedger_def mkTransaction_def
      sortAscending_def getTime_def Let_def)

lemma example_UEPS:
  assumes "parse ''2024-01-01'' = Some d1" "parse ''2024-01-10'' = Some d2"
    "parse ''2024-01-15'' = Some d3" "d1 < d2"
    and "getProductTransactions parse (exampleLedger pid) pid startDate endDate = exampleLedger pid"
  shows "remainingStock (calculateInventoryCost parse (exampleLedger pid) pid UEPS startDate endDate) = 8"
    and "totalCost (calculateInventoryCost parse (exampleLedger pid) pid UEPS startDate endDate) = 40"
    and "averageCost (calculateInventoryCost parse (exampleLedger pid) pid UEPS startDate endDate) = 5"
  using assms
  by (simp_all add: calculateInventoryCost_def exampleLedger_def mkTransaction_def
      sortAscending_def sortDescending_def getTime_def Let_def)

lemma example_weighted:
  assumes "getProductTransactions parse (exampleLedger pid) pid startDate endDate = exampleLedger pid"
  shows "remainingStock (calculateInventoryCost parse (exampleLedger pid) pid weighted startDate endDate) = 8"
    and "totalCost (calculateInventoryCost parse (exampleLedger pid) pid weighted startDate endDate) = 48"
    and "averageCost (calculateInventoryCost parse (exampleLedger pid) pid weighted startDate endDate) = 6"
  using assms
  by (simp_all add: calculateInventoryCost_def exampleLedger_def mkTransaction_def
      weightedTotals_def addEntry_def applyExit_def Let_def)

text \<open>
  Claim C2. On the ledger of the two entries, 10 at 5 on 2024-01-01 and 10 at 7 on
  2024-01-10, and the exit of 12 on 2024-01-15, queried over a range that holds the three
  dates, PEPS returns 8, 56 and 7 as remaining stock, total cost and average cost, UEPS
  returns 8, 40 and 5, and weighted returns 8, 48 and 6. This holds for every date parser
  that puts the three dates in their calendar order.
\<close>

theorem example_cost_breakdown:
  assumes "parse ''2024-01-01'' = Some d1" "parse ''2024-01-10'' = Some d2"
    "parse ''2024-01-15'' = Some d3" "d1 < d2" "d2 < d3"
    "parse startDate = Some a" "parse endDate = Some b" "a \<le> d1" "d3 \<le> b"
  shows "remainingStock (calculateInventoryCost parse (exampleLedger pid) pid PEPS startDate endDate) = 8
       \<and> totalCost (calculateInventoryCost parse (exampleLedger pid) pid PEPS startDate endDate) = 56
       \<and> averageCost (calculateInventoryCost parse (exampleLedger pid) pid PEPS startDate endDate) = 7
       \<and> remainingStock (calculateInventoryCost parse (exampleLedger pid) pid UEPS startDate endDate) = 8
       \<and> totalCost (calculateInventoryCost parse (exampleLedger pid) pid UEPS startDate endDate) = 40
       \<and> averageCost (calculateInventoryCost parse (exampleLedger pid) pid UEPS startDate endDate) = 5
       \<and> remainingStock (calculateInventoryCost parse (exampleLedger pid) pid weighted startDate endDate) = 8
       \<and> totalCost (calculateInventoryCost parse (exampleLedger pid) pid weighted startDate endDate) = 48
       \<and> averageCost (calculateInventoryCost parse (exampleLedger pid) pid weighted startDate endDate) = 6"
proof -
  have sel: "getProductTransactions parse (exampleLedger pid) pid startDate endDate = exampleLedger pid"
    using assms by (rule example_selected)
  note p = example_PEPS [OF assms(1-4) sel]
  note u = example_UEPS [OF assms(1-4) sel]
  note w = example_weighted [OF sel]
  from p u w show ?thesis by (intro conjI)
qed

theorem example_cost_breakdown_witness:
  "remainingStock (calculateInventoryCost sampleDates (exampleLedger ''p1'') ''p1'' PEPS ''2024-01-01'' ''2024-01-31'') = 8
   \<and> totalCost (calculateInventoryCost sampleDates (exampleLedger ''p1'') ''p1'' PEPS ''2024-01-01'' ''2024-01-31'') = 56
   \<and> averageCost (calculateInventoryCost sampleDates (exampleLedger ''p1'') ''p1'' PEPS ''2024-01-01'' ''2024-01-31'') = 7
   \<and> remainingStock (calculateInventoryCost sampleDates (exampleLedger ''p1'') ''p1'' UEPS ''2024-01-01'' ''2024-01-31'') = 8
   \<and> totalCost (calculateInventoryCost sampleDates (exampleLedger ''p1'') ''p1'' UEPS ''2024-01-01'' ''2024-01-31'') = 40
   \<and> averageCost (calculateInventoryCost sampleDates (exampleLedger ''p1'') ''p1'' UEPS ''2024-01-01'' ''2024-01-31'') = 5
   \<and> remainingStock (calculateInventoryCost sampleDates (exampleLedger ''p1'') ''p1'' weighted ''2024-01-01'' ''2024-01-31'') = 8
   \<and> totalCost (calculateInventoryCost sampleDates (exampleLedger ''p1'') ''p1'' weighted ''2024-01-01'' ''2024-01-31'') = 48
   \<and> averageCost (calculateInventoryCost sampleDates (exampleLedger ''p1'') ''p1'' weighted ''2024-01-01'' ''2024-01-31'') = 6"
  using example_cost_breakdown
    [where parse = sampleDates and pid = "''p1''" and startDate = "''2024-01-01''"
       and endDate = "''2024-01-31''" and ?d1.0 = 1704067200000 and ?d2.0 = 1704844800000
       and ?d3.0 = 1705276800000 and a = 1704067200000 and b = 1706659200000]
  by simp

section \<open>Total cost of PEPS against UEPS\<close>

lemma surplus_Cons [simp]:
  "surplus sg b (t # ts) = quantity t * max 0 (sg * unitCost t - b) + surplus sg b ts"
  and surplus_Nil [simp]: "surplus sg b [] = 0"
  by (simp_all add: surplus_def)

lemma surplus_nonneg: "nonNegativeQuantities ts \<Longrightarrow> 0 \<le> surplus sg b ts"
  by (induction ts) simp_all

lemma surplus_mset: "surplus sg b ts = sum_mset (image_mset (\<lambda>t. quantity t * max 0 (sg * unitCost t - b)) (mset ts))"
  by (induction ts) simp_all

lemma surplus_sort_key [simp]: "surplus sg b (sort_key k ts) = surplus sg b ts"
  by (simp add: surplus_mset)





lemma consumeEntries_sorted:
  "sorted (map (\<lambda>t. sg * unitCost t) q) \<Longrightarrow> sorted (map (\<lambda>t. sg * unitCost t) (consumeEntries x q))"
  by (induction q arbitrary: x) auto

lemma processExits_sorted:
  "sorted (map (\<lambda>t. sg * unitCost t) q) \<Longrightarrow> sorted (map (\<lambda>t. sg * unitCost t) (processExits q xs))"
  by (induction xs arbitrary: q) (simp_all add: consumeEntries_sorted)









end
